theory Spec2Isabelle
  imports
    Complex_Main
    "HOL-Library.Char_ord"
    "HOL-Library.List_Lexorder"
    "HOL-Library.Multiset"
    "HOL-Library.Product_Lexorder"
begin

section \<open>Values decoded from JSON\<close>

text \<open>
  Everything the client reads from the upstream is what \<^verbatim>\<open>response.json()\<close> returns: a
  Python value built from \<^verbatim>\<open>None\<close>, \<^verbatim>\<open>bool\<close>, \<^verbatim>\<open>int\<close>, \<^verbatim>\<open>float\<close>, \<^verbatim>\<open>str\<close>, \<^verbatim>\<open>list\<close> and \<^verbatim>\<open>dict\<close>.
  A dict is an association list read with \<open>map_of\<close>; a finite float is the rational it denotes.
  Strings are \<open>string\<close>, one \<open>char\<close> per character (exact for ASCII text).
  The decoder never builds a tuple, so the type has none.
\<close>

datatype json =
    JNull
  | JBool bool
  | JInt int
  | JFloat rat
  | JStr string
  | JList "json list"
  | JObj "(string \<times> json) list"

text \<open>Python truth value testing (\<^verbatim>\<open>bool(v)\<close>), as used by \<^verbatim>\<open>or\<close>, \<^verbatim>\<open>if\<close> and \<^verbatim>\<open>not\<close>.\<close>

fun truthy :: "json \<Rightarrow> bool" where
  "truthy JNull = False"
| "truthy (JBool b) = b"
| "truthy (JInt n) = (n \<noteq> 0)"
| "truthy (JFloat x) = (x \<noteq> 0)"
| "truthy (JStr s) = (s \<noteq> [])"
| "truthy (JList vs) = (vs \<noteq> [])"
| "truthy (JObj kvs) = (kvs \<noteq> [])"

text \<open>\<^verbatim>\<open>a or b\<close>: the first operand when it is truthy, the second otherwise.\<close>

definition py_or :: "json \<Rightarrow> json \<Rightarrow> json" where
  "py_or a b = (if truthy a then a else b)"

text \<open>\<^verbatim>\<open>d.get(key)\<close> and \<^verbatim>\<open>d.get(key, default)\<close> on a dict.\<close>

definition dict_get :: "(string \<times> json) list \<Rightarrow> string \<Rightarrow> json \<Rightarrow> json" where
  "dict_get d k dflt = (case map_of d k of None \<Rightarrow> dflt | Some v \<Rightarrow> v)"

section \<open>Exceptions\<close>

text \<open>
  \<open>MetaAPIError\<close> and \<open>MetaTimeoutError\<close> are the two exception classes of
  \<^verbatim>\<open>meta_client.py\<close>; the constructor of \<open>MetaAPIError\<close> stores its three arguments as
  given. The others are the Python and library exceptions that the code lets through:
  \<open>ValidationError\<close> from the pydantic model, \<open>AttributeError\<close> from \<^verbatim>\<open>.get\<close> on a value
  that is not a dict, \<open>TypeError\<close> from iterating a value that is not iterable,
  \<open>JSONDecodeError\<close> from \<^verbatim>\<open>response.json()\<close>, and \<open>OtherError\<close> for any other exception
  raised by the HTTP client.
\<close>

datatype exn =
    MetaAPIError int json json
  | MetaTimeoutError string
  | ValidationError
  | AttributeError
  | TypeError
  | JSONDecodeError
  | OtherError string

section \<open>The normalised schema (models.py)\<close>

record NormalisedAd =
  source :: string
  advertiser :: "string option"
  title :: "string option"
  body :: "string option"
  creative_url :: "string option"
  first_seen :: "string option"
  last_seen :: "string option"
  status :: "string option"
  platforms :: "string list option"
  snapshot_url :: "string option"

text \<open>
  \<^verbatim>\<open>NormalisedAd\<close> is a pydantic (v2) model: its constructor validates every keyword
  argument against the declared field type and raises \<open>ValidationError\<close> when one does not
  fit. A field \<^verbatim>\<open>Optional[str]\<close> takes \<^verbatim>\<open>None\<close> or a string and nothing else (numbers are not
  coerced), \<^verbatim>\<open>Optional[List[str]]\<close> takes \<^verbatim>\<open>None\<close> or a list of strings, and
  \<^verbatim>\<open>model_config = ConfigDict(str_strip_whitespace=True)\<close> strips leading and trailing
  whitespace from every string it accepts (here: the ASCII whitespace characters).
\<close>

definition is_space :: "char \<Rightarrow> bool" where
  "is_space c = (c \<in> set [CHR '' '', CHR 0x09, CHR 0x0A, CHR 0x0B, CHR 0x0C, CHR 0x0D])"

definition strip :: "string \<Rightarrow> string" where
  "strip s = rev (dropWhile is_space (rev (dropWhile is_space s)))"

definition is_str :: "json \<Rightarrow> bool" where
  "is_str v = (case v of JStr _ \<Rightarrow> True | _ \<Rightarrow> False)"

definition is_list :: "json \<Rightarrow> bool" where
  "is_list v = (case v of JList _ \<Rightarrow> True | _ \<Rightarrow> False)"

text \<open>
  Which values a field type accepts (\<open>fits_\<close>) and what it stores for a value it accepts
  (\<open>as_\<close>): \<^verbatim>\<open>Optional[str]\<close>, \<^verbatim>\<open>Optional[List[str]]\<close> and
  \<^verbatim>\<open>Optional[Literal["active", "inactive"]]\<close>.
\<close>

definition fits_optional_str :: "json \<Rightarrow> bool" where
  "fits_optional_str v = (v = JNull \<or> is_str v)"

definition as_optional_str :: "json \<Rightarrow> string option" where
  "as_optional_str v = (case v of JStr s \<Rightarrow> Some (strip s) | _ \<Rightarrow> None)"

definition fits_optional_list_str :: "json \<Rightarrow> bool" where
  "fits_optional_list_str v = (case v of JNull \<Rightarrow> True | JList vs \<Rightarrow> list_all is_str vs | _ \<Rightarrow> False)"

definition as_optional_list_str :: "json \<Rightarrow> string list option" where
  "as_optional_list_str v =
     (case v of JList vs \<Rightarrow> Some (map (\<lambda>x. case x of JStr s \<Rightarrow> strip s | _ \<Rightarrow> []) vs) | _ \<Rightarrow> None)"

definition fits_optional_status :: "json \<Rightarrow> bool" where
  "fits_optional_status v = (v = JNull \<or> v = JStr ''active'' \<or> v = JStr ''inactive'')"

definition as_optional_status :: "json \<Rightarrow> string option" where
  "as_optional_status v = (case v of JStr s \<Rightarrow> Some s | _ \<Rightarrow> None)"

text \<open>
  The constructor call \<^verbatim>\<open>NormalisedAd(advertiser=..., ..., snapshot_url=...)\<close>, its keyword
  arguments in the order of the call; \<^verbatim>\<open>source\<close> keeps its default. One argument that does
  not fit its field makes the whole call raise.
\<close>

definition NormalisedAd_init ::
  "json \<Rightarrow> json \<Rightarrow> json \<Rightarrow> json \<Rightarrow> json \<Rightarrow> json \<Rightarrow> json \<Rightarrow> json \<Rightarrow> json \<Rightarrow> exn + NormalisedAd" where
  "NormalisedAd_init adv ttl bdy curl fseen lseen stat plat surl =
     (if fits_optional_str adv \<and> fits_optional_str ttl \<and> fits_optional_str bdy \<and>
         fits_optional_str curl \<and> fits_optional_str fseen \<and> fits_optional_str lseen \<and>
         fits_optional_status stat \<and> fits_optional_list_str plat \<and> fits_optional_str surl
      then Inr \<lparr>source = ''meta'',
                advertiser = as_optional_str adv,
                title = as_optional_str ttl,
                body = as_optional_str bdy,
                creative_url = as_optional_str curl,
                first_seen = as_optional_str fseen,
                last_seen = as_optional_str lseen,
                status = as_optional_status stat,
                platforms = as_optional_list_str plat,
                snapshot_url = as_optional_str surl\<rparr>
      else Inl ValidationError)"

section \<open>Normalising one record (meta\_client.py)\<close>

text \<open>
  \<^verbatim>\<open>_first_or_none\<close>. The branch for tuples has no counterpart: a decoded JSON value is
  never a tuple.
\<close>

fun first_or_none :: "json \<Rightarrow> json" where
  "first_or_none (JList vs) = (case vs of [] \<Rightarrow> JNull | v # _ \<Rightarrow> v)"
| "first_or_none (JStr s) = JStr s"
| "first_or_none _ = JNull"

text \<open>
  \<^verbatim>\<open>_normalise_record\<close>, on a dict. \<open>str_of\<close> stands for Python's builtin \<^verbatim>\<open>str\<close> on a
  decoded value, which the code applies to a \<^verbatim>\<open>publisher_platforms\<close> that is not a list.
\<close>

definition normalise_record :: "(json \<Rightarrow> string) \<Rightarrow> (string \<times> json) list \<Rightarrow> exn + NormalisedAd" where
  "normalise_record str_of record =
     (let advertiser = dict_get record ''page_name'' JNull;
          title = first_or_none (dict_get record ''ad_creative_link_titles'' JNull);
          body = first_or_none (dict_get record ''ad_creative_bodies'' JNull);
          snapshot_url = dict_get record ''ad_snapshot_url'' JNull;
          start_time = dict_get record ''ad_delivery_start_time'' JNull;
          stop_time = py_or (dict_get record ''ad_delivery_stop_time'' JNull) JNull;
          creation_time = dict_get record ''ad_creation_time'' JNull;
          last_seen = py_or stop_time creation_time;
          status = (if truthy stop_time then JStr ''inactive'' else JStr ''active'');
          platforms = dict_get record ''publisher_platforms'' JNull;
          platforms = (if platforms \<noteq> JNull \<and> \<not> is_list platforms
                       then JList [JStr (str_of platforms)] else platforms)
      in NormalisedAd_init advertiser title body snapshot_url start_time last_seen status
           platforms snapshot_url)"

text \<open>
  \<^verbatim>\<open>_normalise_record\<close> is annotated for a dict, but \<^verbatim>\<open>fetch_ads\<close> hands it whatever the
  upstream put into \<^verbatim>\<open>data\<close>: on anything else the first \<^verbatim>\<open>record.get\<close> raises.
\<close>

fun normalise_value :: "(json \<Rightarrow> string) \<Rightarrow> json \<Rightarrow> exn + NormalisedAd" where
  "normalise_value str_of (JObj record) = normalise_record str_of record"
| "normalise_value str_of _ = Inl AttributeError"

text \<open>
  The list comprehension \<^verbatim>\<open>[_normalise_record(record) for record in raw_records]\<close>: left
  to right, the first exception ends it.
\<close>

fun normalise_all :: "(json \<Rightarrow> string) \<Rightarrow> json list \<Rightarrow> exn + NormalisedAd list" where
  "normalise_all str_of [] = Inr []"
| "normalise_all str_of (v # vs) =
     (case normalise_value str_of v of
        Inl e \<Rightarrow> Inl e
      | Inr ad \<Rightarrow> (case normalise_all str_of vs of Inl e \<Rightarrow> Inl e | Inr ads \<Rightarrow> Inr (ad # ads)))"

section \<open>Sorting\<close>

text \<open>
  The sort key \<^verbatim>\<open>((ad.last_seen or ""), (ad.first_seen or ""))\<close>: a pair of strings, compared
  as Python compares tuples and strings, lexicographically.
\<close>

definition or_empty :: "string option \<Rightarrow> string" where
  "or_empty v = (case v of None \<Rightarrow> [] | Some s \<Rightarrow> s)"

definition sort_key_of :: "NormalisedAd \<Rightarrow> string \<times> string" where
  "sort_key_of ad = (or_empty (last_seen ad), or_empty (first_seen ad))"

text \<open>
  \<^verbatim>\<open>sorted(ads, key=..., reverse=True)\<close>. Python's sort is stable, and with \<^verbatim>\<open>reverse=True\<close>
  it reverses the list, sorts it in ascending order and reverses the result, so that equal
  keys keep the order of the input. \<open>sort_key\<close> is the stable insertion sort of the library.
\<close>

definition sort_ads :: "NormalisedAd list \<Rightarrow> NormalisedAd list" where
  "sort_ads ads = rev (sort_key sort_key_of (rev ads))"

section \<open>The rate limiter\<close>


definition RATE_LIMIT_WINDOW :: rat where
  "RATE_LIMIT_WINDOW = 1"


text \<open>
  The inner loop \<^verbatim>\<open>while _request_timestamps and now - _request_timestamps[0] >= RATE_LIMIT_WINDOW\<close>,
  which takes entries off the left end of the deque \<^verbatim>\<open>_request_timestamps\<close>.
\<close>

fun popleft_old :: "rat \<Rightarrow> rat list \<Rightarrow> rat list" where
  "popleft_old now [] = []"
| "popleft_old now (oldest # ts) =
     (if now - oldest \<ge> RATE_LIMIT_WINDOW then popleft_old now ts else oldest # ts)"







section \<open>Fetching pages\<close>

record AdsQuery =
  industry :: string
  country :: string
  limit :: int

text \<open>The bounds that the pydantic model \<^verbatim>\<open>AdsQuery\<close> checks when a query is built.\<close>

definition valid_query :: "AdsQuery \<Rightarrow> bool" where
  "valid_query q =
     (2 \<le> length (industry q) \<and> length (country q) = 2 \<and> 1 \<le> limit q \<and> limit q \<le> 100)"

text \<open>
  What one \<^verbatim>\<open>await client.get(...)\<close> does: it returns a response, with a status code and a
  body that either decodes as JSON (\<open>Json\<close>) or does not (\<open>NotJson\<close>, with the raw text), or
  it raises one of the five timeout exceptions named in the \<^verbatim>\<open>except\<close> clause (with the
  exception's text), or it raises something else. The upstream is a script of such replies,
  the \<open>i\<close>-th reply answering the \<open>i\<close>-th request whatever its URL.
\<close>

datatype body = Json json | NotJson string

datatype timeout_kind = ConnectTimeout | ReadTimeout | WriteTimeout | PoolTimeout | TimeoutException

datatype reply =
    Response int body
  | Timeout timeout_kind string
  | Failure string

text \<open>The target of a request: the search on \<^verbatim>\<open>BASE_URL\<close> with \<^verbatim>\<open>params\<close>, or \<^verbatim>\<open>next_url\<close>.\<close>

datatype request = Search | Follow json

text \<open>\<^verbatim>\<open>v.get(key, default)\<close> on any decoded value: only a dict has the method.\<close>

fun py_get :: "json \<Rightarrow> string \<Rightarrow> json \<Rightarrow> exn + json" where
  "py_get (JObj d) k dflt = Inr (dict_get d k dflt)"
| "py_get _ k dflt = Inl AttributeError"

text \<open>
  \<^verbatim>\<open>raw_records.extend(data)\<close>: the elements of a list, the characters of a string, the keys
  of a dict; nothing else is iterable.
\<close>

fun py_extend :: "json list \<Rightarrow> json \<Rightarrow> exn + json list" where
  "py_extend raw (JList vs) = Inr (raw @ vs)"
| "py_extend raw (JStr s) = Inr (raw @ map (\<lambda>c. JStr [c]) s)"
| "py_extend raw (JObj d) = Inr (raw @ map JStr (remdups (map fst d)))"
| "py_extend raw _ = Inl TypeError"

text \<open>
  The branch \<^verbatim>\<open>if response.status_code != httpx.codes.OK\<close>: the exception it raises.
\<close>

definition error_payload :: "body \<Rightarrow> json" where
  "error_payload b =
     (case b of Json payload \<Rightarrow> payload
      | NotJson text \<Rightarrow> JObj [(''error'', JObj [(''message'', JStr text)])])"

definition upstream_error :: "int \<Rightarrow> body \<Rightarrow> exn" where
  "upstream_error status_code b =
     (case py_get (error_payload b) ''error'' (JObj []) of
        Inl e \<Rightarrow> e
      | Inr error \<Rightarrow>
          (case py_get error ''code'' JNull of
             Inl e \<Rightarrow> e
           | Inr code \<Rightarrow>
               (case py_get error ''message'' (JStr ''Meta API error'') of
                  Inl e \<Rightarrow> e
                | Inr message \<Rightarrow> MetaAPIError status_code code message)))"

text \<open>
  One turn of the \<^verbatim>\<open>while True\<close> loop after the response has arrived: either the loop goes
  on with the longer accumulator and the new \<^verbatim>\<open>next_url\<close>, or it ends, by \<^verbatim>\<open>break\<close> with the
  accumulator or by an exception.
\<close>

datatype turn = Continue "json list" json | Stop "exn + json list"

definition page_turn :: "int \<Rightarrow> json list \<Rightarrow> int \<Rightarrow> body \<Rightarrow> turn" where
  "page_turn query_limit raw_records status_code b =
     (if status_code \<noteq> 200 then Stop (Inl (upstream_error status_code b))
      else
        (case b of
           NotJson text \<Rightarrow> Stop (Inl JSONDecodeError)
         | Json payload \<Rightarrow>
             (case py_get payload ''data'' (JList []) of
                Inl e \<Rightarrow> Stop (Inl e)
              | Inr data \<Rightarrow>
                  (case py_extend raw_records data of
                     Inl e \<Rightarrow> Stop (Inl e)
                   | Inr raw_records' \<Rightarrow>
                       (if query_limit \<le> int (length raw_records') then Stop (Inr raw_records')
                        else
                          (case py_get payload ''paging'' (JObj []) of
                             Inl e \<Rightarrow> Stop (Inl e)
                           | Inr paging \<Rightarrow>
                               (case py_get paging ''next'' JNull of
                                  Inl e \<Rightarrow> Stop (Inl e)
                                | Inr next_url \<Rightarrow>
                                    (if \<not> truthy next_url then Stop (Inr raw_records')
                                     else Continue raw_records' next_url))))))))"

text \<open>
  What a run of the loop leaves behind: the requests it sent, in order, the page counter
  (written to the log in the \<^verbatim>\<open>finally\<close> block) and the value returned or the exception
  raised.
\<close>

record 'a fetched =
  requests :: "request list"
  page_count :: nat
  outcome :: "exn + 'a"

text \<open>
  The loop of \<^verbatim>\<open>fetch_ads\<close>, with the \<^verbatim>\<open>except\<close> clause that turns a timeout into
  \<open>MetaTimeoutError\<close>. The result is \<open>None\<close> when the loop asks for a reply that the script
  does not have. The two waits of a turn, \<^verbatim>\<open>_wait_for_rate_limit_slot\<close> before the
  request and \<^verbatim>\<open>asyncio.sleep(PAGE_DELAY_SECONDS)\<close> after a page, take time, raise nothing
  and touch nothing that the loop reads; the run is followed on the understanding that each
  of them ends.
\<close>

fun fetch_loop ::
  "int \<Rightarrow> reply list \<Rightarrow> json list \<Rightarrow> json \<Rightarrow> request list \<Rightarrow> nat \<Rightarrow> (json list) fetched option" where
  "fetch_loop query_limit [] raw_records next_url sent n = None"
| "fetch_loop query_limit (r # rs) raw_records next_url sent n =
     (let sent' = sent @ [if truthy next_url then Follow next_url else Search] in
      case r of
        Timeout k msg \<Rightarrow>
          Some \<lparr>requests = sent', page_count = n, outcome = Inl (MetaTimeoutError msg)\<rparr>
      | Failure msg \<Rightarrow>
          Some \<lparr>requests = sent', page_count = n, outcome = Inl (OtherError msg)\<rparr>
      | Response status_code b \<Rightarrow>
          (case page_turn query_limit raw_records status_code b of
             Stop res \<Rightarrow> Some \<lparr>requests = sent', page_count = Suc n, outcome = res\<rparr>
           | Continue raw_records' next_url' \<Rightarrow>
               fetch_loop query_limit rs raw_records' next_url' sent' (Suc n)))"

text \<open>\<^verbatim>\<open>xs[:n]\<close> for any integer \<open>n\<close>: a negative bound counts from the end.\<close>

definition slice_to :: "'a list \<Rightarrow> int \<Rightarrow> 'a list" where
  "slice_to xs n = (if 0 \<le> n then take (nat n) xs else take (length xs - nat (- n)) xs)"

text \<open>
  The end of \<^verbatim>\<open>fetch_ads\<close>, after the loop: truncate, normalise, sort.
\<close>

definition finish_fetch :: "(json \<Rightarrow> string) \<Rightarrow> AdsQuery \<Rightarrow> json list \<Rightarrow> exn + NormalisedAd list" where
  "finish_fetch str_of query raw_records =
     (let raw_records = (if raw_records \<noteq> [] then slice_to raw_records (limit query)
                         else raw_records)
      in case normalise_all str_of raw_records of
           Inl e \<Rightarrow> Inl e
         | Inr normalised \<Rightarrow> Inr (sort_ads normalised))"

text \<open>
  \<^verbatim>\<open>fetch_ads(query, token)\<close> against a script of replies. The token goes into the request
  parameters and nowhere else.
\<close>

definition fetch_ads ::
  "(json \<Rightarrow> string) \<Rightarrow> AdsQuery \<Rightarrow> string \<Rightarrow> reply list \<Rightarrow> (NormalisedAd list) fetched option" where
  "fetch_ads str_of query token script =
     (case fetch_loop (limit query) script [] JNull [] 0 of
        None \<Rightarrow> None
      | Some run \<Rightarrow>
          Some \<lparr>requests = requests run, page_count = page_count run,
                outcome =
                  (case outcome run of
                     Inl e \<Rightarrow> Inl e
                   | Inr raw_records \<Rightarrow> finish_fetch str_of query raw_records)\<rparr>)"

section \<open>Pages and scripts\<close>


text \<open>
  What \<^verbatim>\<open>raw_records.extend(payload.get("data", []))\<close> appends for a reply, whatever
  else the reply holds.
\<close>

fun records_of :: "reply \<Rightarrow> json list" where
  "records_of (Response status_code (Json payload)) =
     (case py_get payload ''data'' (JList []) of
        Inl e \<Rightarrow> []
      | Inr data \<Rightarrow> (case py_extend [] data of Inl e \<Rightarrow> [] | Inr recs \<Rightarrow> recs))"
| "records_of _ = []"

text \<open>
  \<open>passes query_limit raw_records replies\<close>: starting with the accumulator \<open>raw_records\<close>,
  the loop takes every reply of \<open>replies\<close> and goes on after each of them.
\<close>

fun passes :: "int \<Rightarrow> json list \<Rightarrow> reply list \<Rightarrow> bool" where
  "passes query_limit raw_records [] = True"
| "passes query_limit raw_records (Response status_code b # rs) =
     (case page_turn query_limit raw_records status_code b of
        Continue raw_records' next_url \<Rightarrow> passes query_limit raw_records' rs
      | Stop res \<Rightarrow> False)"
| "passes query_limit raw_records (_ # rs) = False"

section \<open>The pages of tests/test\_ads.py\<close>

text \<open>
  The record of \<^verbatim>\<open>test_get_ads_success\<close>, and the four records, the cursor and the two
  pages of \<^verbatim>\<open>test_get_ads_pagination\<close>.
\<close>

definition acme_record :: "(string \<times> json) list" where
  "acme_record =
     [(''page_name'', JStr ''Acme Corp''),
      (''ad_creative_link_titles'', JList [JStr ''Big Sale'']),
      (''ad_creative_bodies'', JList [JStr ''Buy now'']),
      (''ad_snapshot_url'', JStr ''https://example.com/snapshot''),
      (''ad_delivery_start_time'', JStr ''2024-05-01T00:00:00+0000''),
      (''ad_delivery_stop_time'', JNull),
      (''ad_creation_time'', JStr ''2024-05-01T00:00:00+0000''),
      (''publisher_platforms'', JList [JStr ''facebook''])]"

definition acme_ad :: NormalisedAd where
  "acme_ad =
     \<lparr>source = ''meta'', advertiser = Some ''Acme Corp'', title = Some ''Big Sale'',
      body = Some ''Buy now'', creative_url = Some ''https://example.com/snapshot'',
      first_seen = Some ''2024-05-01T00:00:00+0000'', last_seen = Some ''2024-05-01T00:00:00+0000'',
      status = Some ''active'', platforms = Some [''facebook''],
      snapshot_url = Some ''https://example.com/snapshot''\<rparr>"

definition record_A :: "(string \<times> json) list" where
  "record_A =
     [(''page_name'', JStr ''Page A''),
      (''ad_creative_link_titles'', JList [JStr ''Title A'']),
      (''ad_creative_bodies'', JList [JStr ''Body A'']),
      (''ad_snapshot_url'', JStr ''https://example.com/a''),
      (''ad_delivery_start_time'', JStr ''2024-05-01T00:00:00+0000''),
      (''ad_delivery_stop_time'', JStr ''2024-05-04T00:00:00+0000''),
      (''ad_creation_time'', JStr ''2024-05-01T00:00:00+0000'')]"

definition record_B :: "(string \<times> json) list" where
  "record_B =
     [(''page_name'', JStr ''Page B''),
      (''ad_creative_link_titles'', JList [JStr ''Title B'']),
      (''ad_creative_bodies'', JList [JStr ''Body B'']),
      (''ad_snapshot_url'', JStr ''https://example.com/b''),
      (''ad_delivery_start_time'', JStr ''2024-05-02T00:00:00+0000''),
      (''ad_delivery_stop_time'', JNull),
      (''ad_creation_time'', JStr ''2024-05-02T00:00:00+0000'')]"

definition record_C :: "(string \<times> json) list" where
  "record_C =
     [(''page_name'', JStr ''Page C''),
      (''ad_creative_link_titles'', JList [JStr ''Title C'']),
      (''ad_creative_bodies'', JList [JStr ''Body C'']),
      (''ad_snapshot_url'', JStr ''https://example.com/c''),
      (''ad_delivery_start_time'', JStr ''2024-05-03T00:00:00+0000''),
      (''ad_delivery_stop_time'', JStr ''2024-05-05T00:00:00+0000''),
      (''ad_creation_time'', JStr ''2024-05-03T00:00:00+0000'')]"

definition record_D :: "(string \<times> json) list" where
  "record_D =
     [(''page_name'', JStr ''Page D''),
      (''ad_creative_link_titles'', JList [JStr ''Title D'']),
      (''ad_creative_bodies'', JList [JStr ''Body D'']),
      (''ad_snapshot_url'', JStr ''https://example.com/d''),
      (''ad_delivery_start_time'', JStr ''2024-05-04T00:00:00+0000''),
      (''ad_delivery_stop_time'', JNull),
      (''ad_creation_time'', JStr ''2024-05-04T00:00:00+0000'')]"

definition ad_A :: NormalisedAd where
  "ad_A =
     \<lparr>source = ''meta'', advertiser = Some ''Page A'', title = Some ''Title A'',
      body = Some ''Body A'', creative_url = Some ''https://example.com/a'',
      first_seen = Some ''2024-05-01T00:00:00+0000'', last_seen = Some ''2024-05-04T00:00:00+0000'',
      status = Some ''inactive'', platforms = None, snapshot_url = Some ''https://example.com/a''\<rparr>"

definition ad_B :: NormalisedAd where
  "ad_B =
     \<lparr>source = ''meta'', advertiser = Some ''Page B'', title = Some ''Title B'',
      body = Some ''Body B'', creative_url = Some ''https://example.com/b'',
      first_seen = Some ''2024-05-02T00:00:00+0000'', last_seen = Some ''2024-05-02T00:00:00+0000'',
      status = Some ''active'', platforms = None, snapshot_url = Some ''https://example.com/b''\<rparr>"

definition ad_C :: NormalisedAd where
  "ad_C =
     \<lparr>source = ''meta'', advertiser = Some ''Page C'', title = Some ''Title C'',
      body = Some ''Body C'', creative_url = Some ''https://example.com/c'',
      first_seen = Some ''2024-05-03T00:00:00+0000'', last_seen = Some ''2024-05-05T00:00:00+0000'',
      status = Some ''inactive'', platforms = None, snapshot_url = Some ''https://example.com/c''\<rparr>"

definition ad_D :: NormalisedAd where
  "ad_D =
     \<lparr>source = ''meta'', advertiser = Some ''Page D'', title = Some ''Title D'',
      body = Some ''Body D'', creative_url = Some ''https://example.com/d'',
      first_seen = Some ''2024-05-04T00:00:00+0000'', last_seen = Some ''2024-05-04T00:00:00+0000'',
      status = Some ''active'', platforms = None, snapshot_url = Some ''https://example.com/d''\<rparr>"

definition next_page_url :: string where
  "next_page_url = ''https://graph.facebook.com/v23.0/ads_archive?after=token''"

definition first_page :: reply where
  "first_page =
     Response 200 (Json (JObj
       [(''data'', JList [JObj record_A, JObj record_B]),
        (''paging'', JObj [(''next'', JStr next_page_url)])]))"

definition second_page :: reply where
  "second_page =
     Response 200 (Json (JObj
       [(''data'', JList [JObj record_C, JObj record_D]),
        (''paging'', JObj [])]))"

text \<open>The second page again, this time with a cursor, and a page with nothing on it.\<close>

definition second_page_with_cursor :: reply where
  "second_page_with_cursor =
     Response 200 (Json (JObj
       [(''data'', JList [JObj record_C, JObj record_D]),
        (''paging'', JObj [(''next'', JStr next_page_url)])]))"

definition empty_page :: reply where
  "empty_page = Response 200 (Json (JObj [(''data'', JList [])]))"

definition tech_query :: AdsQuery where
  "tech_query = \<lparr>industry = ''tech'', country = ''GB'', limit = 3\<rparr>"

text \<open>
  For closed examples: Python's \<^verbatim>\<open>str\<close> on a string is the string itself, and the
  examples apply it to nothing else.
\<close>

definition str_of_text :: "json \<Rightarrow> string" where
  "str_of_text v = (case v of JStr s \<Rightarrow> s | _ \<Rightarrow> [])"

section \<open>The loop, one page at a time\<close>

lemma py_extend_append:
  "py_extend raw data = Inr raw' \<Longrightarrow> \<exists>xs. py_extend [] data = Inr xs \<and> raw' = raw @ xs"
  by (cases data) auto

lemma page_turn_Continue:
  assumes "page_turn lmt raw st b = Continue raw' nxt"
  shows "st = 200 \<and> raw' = raw @ records_of (Response st b) \<and> truthy nxt \<and> int (length raw') < lmt"
proof -
  from assms have st: "st = 200"
    by (auto simp: page_turn_def split: if_splits)
  from assms st obtain payload where b: "b = Json payload"
    by (cases b) (auto simp: page_turn_def)
  from assms st b obtain data where d: "py_get payload ''data'' (JList []) = Inr data"
    by (cases "py_get payload ''data'' (JList [])") (auto simp: page_turn_def)
  from assms st b d obtain raw1 where e: "py_extend raw data = Inr raw1"
    by (cases "py_extend raw data") (auto simp: page_turn_def)
  from py_extend_append[OF e] obtain xs where xs: "py_extend [] data = Inr xs" "raw1 = raw @ xs"
    by blast
  from assms st b d e have "raw' = raw1 \<and> truthy nxt \<and> int (length raw1) < lmt"
    by (auto simp: page_turn_def split: if_splits sum.splits)
  with st b d xs show ?thesis by simp
qed

lemma page_turn_Stop_Inr:
  assumes "page_turn lmt raw st b = Stop (Inr out)"
  shows "out = raw @ records_of (Response st b)"
proof -
  from assms have st: "st = 200"
    by (auto simp: page_turn_def split: if_splits)
  from assms st obtain payload where b: "b = Json payload"
    by (cases b) (auto simp: page_turn_def)
  from assms st b obtain data where d: "py_get payload ''data'' (JList []) = Inr data"
    by (cases "py_get payload ''data'' (JList [])") (auto simp: page_turn_def)
  from assms st b d obtain raw1 where e: "py_extend raw data = Inr raw1"
    by (cases "py_extend raw data") (auto simp: page_turn_def)
  from py_extend_append[OF e] obtain xs where xs: "py_extend [] data = Inr xs" "raw1 = raw @ xs"
    by blast
  from assms st b d e have "out = raw1"
    by (auto simp: page_turn_def split: if_splits sum.splits)
  with st b d xs show ?thesis by simp
qed


lemma fetch_loop_passes:
  "passes lmt raw pre \<Longrightarrow>
   \<exists>nxt' sent'. length sent' = length sent + length pre \<and>
     (\<forall>rest n. fetch_loop lmt (pre @ rest) raw nxt sent n =
        fetch_loop lmt rest (raw @ concat (map records_of pre)) nxt' sent' (n + length pre))"
proof (induction pre arbitrary: raw nxt sent)
  case Nil
  have "length sent = length sent + length ([]::reply list) \<and>
     (\<forall>rest n. fetch_loop lmt ([] @ rest) raw nxt sent n =
        fetch_loop lmt rest (raw @ concat (map records_of [])) nxt sent (n + length ([]::reply list)))"
    by simp
  then show ?case by blast
next
  case (Cons r pre)
  from Cons.prems obtain st b where r: "r = Response st b"
    by (cases r) auto
  from Cons.prems r obtain raw1 nxt1 where
    t: "page_turn lmt raw st b = Continue raw1 nxt1" and p: "passes lmt raw1 pre"
    by (cases "page_turn lmt raw st b") auto
  from page_turn_Continue[OF t] have raw1: "raw1 = raw @ records_of r"
    by (simp add: r)
  define sent1 where "sent1 = sent @ [if truthy nxt then Follow nxt else Search]"
  from Cons.IH[OF p, of sent1 nxt1] obtain nxt' sent' where
    l: "length sent' = length sent1 + length pre" and
    f: "\<And>rest n. fetch_loop lmt (pre @ rest) raw1 nxt1 sent1 n =
        fetch_loop lmt rest (raw1 @ concat (map records_of pre)) nxt' sent' (n + length pre)"
    by blast
  have "length sent' = length sent + length (r # pre)"
    using l by (simp add: sent1_def)
  moreover have "fetch_loop lmt ((r # pre) @ rest) raw nxt sent n =
        fetch_loop lmt rest (raw @ concat (map records_of (r # pre))) nxt' sent' (n + length (r # pre))"
    for rest n
    using f[of rest "Suc n"] by (simp add: r t raw1 sent1_def Let_def)
  ultimately show ?case by blast
qed

section \<open>First-or-none\<close>

text \<open>
  Claim C5. \<^verbatim>\<open>_first_or_none\<close> maps a non-empty list to its first element, an empty list to
  \<^verbatim>\<open>None\<close>, a string to itself and a value of any other shape to \<^verbatim>\<open>None\<close>; the title and the
  body of a normalised ad are both what the field type stores for the result of this rule, on
  \<^verbatim>\<open>ad_creative_link_titles\<close> and on \<^verbatim>\<open>ad_creative_bodies\<close>.
\<close>

theorem first_or_none_rule:
  "first_or_none (JList (v # vs)) = v \<and>
   first_or_none (JList []) = JNull \<and>
   first_or_none (JStr s) = JStr s \<and>
   (\<not> is_list x \<and> \<not> is_str x \<longrightarrow> first_or_none x = JNull) \<and>
   (normalise_record str_of r = Inr ad \<longrightarrow>
      title ad = as_optional_str (first_or_none (dict_get r ''ad_creative_link_titles'' JNull)) \<and>
      body ad = as_optional_str (first_or_none (dict_get r ''ad_creative_bodies'' JNull)))"
proof -
  have "\<not> is_list x \<and> \<not> is_str x \<longrightarrow> first_or_none x = JNull"
    by (cases x) (simp_all add: is_list_def is_str_def)
  moreover have "normalise_record str_of r = Inr ad \<longrightarrow>
      title ad = as_optional_str (first_or_none (dict_get r ''ad_creative_link_titles'' JNull)) \<and>
      body ad = as_optional_str (first_or_none (dict_get r ''ad_creative_bodies'' JNull))"
    by (auto simp: normalise_record_def NormalisedAd_init_def Let_def split: if_splits)
  ultimately show ?thesis by simp
qed

text \<open>The rule on the examples of the specification, and on one record.\<close>

theorem first_or_none_rule_witness:
  "first_or_none (JList [JStr ''A'', JStr ''B'']) = JStr ''A'' \<and>
   first_or_none (JList []) = JNull \<and>
   first_or_none (JStr ''A'') = JStr ''A'' \<and>
   \<not> is_list (JInt 42) \<and> \<not> is_str (JInt 42) \<and> first_or_none (JInt 42) = JNull \<and>
   normalise_record str_of_text
     [(''ad_creative_link_titles'', JList [JStr ''Big Sale'', JStr ''Other'']),
      (''ad_creative_bodies'', JStr ''Buy now'')] =
     Inr \<lparr>source = ''meta'', advertiser = None, title = Some ''Big Sale'', body = Some ''Buy now'',
          creative_url = None, first_seen = None, last_seen = None, status = Some ''active'',
          platforms = None, snapshot_url = None\<rparr> \<and>
   title \<lparr>source = ''meta'', advertiser = None, title = Some ''Big Sale'', body = Some ''Buy now'',
          creative_url = None, first_seen = None, last_seen = None, status = Some ''active'',
          platforms = None, snapshot_url = None\<rparr> =
     as_optional_str (first_or_none (JList [JStr ''Big Sale'', JStr ''Other''])) \<and>
   body \<lparr>source = ''meta'', advertiser = None, title = Some ''Big Sale'', body = Some ''Buy now'',
          creative_url = None, first_seen = None, last_seen = None, status = Some ''active'',
          platforms = None, snapshot_url = None\<rparr> =
     as_optional_str (first_or_none (JStr ''Buy now''))"
proof -
  have n: "normalise_record str_of_text
     [(''ad_creative_link_titles'', JList [JStr ''Big Sale'', JStr ''Other'']),
      (''ad_creative_bodies'', JStr ''Buy now'')] =
     Inr \<lparr>source = ''meta'', advertiser = None, title = Some ''Big Sale'', body = Some ''Buy now'',
          creative_url = None, first_seen = None, last_seen = None, status = Some ''active'',
          platforms = None, snapshot_url = None\<rparr>"
    by (simp add: normalise_record_def NormalisedAd_init_def Let_def dict_get_def py_or_def
        fits_optional_str_def fits_optional_status_def fits_optional_list_str_def is_str_def
        is_list_def as_optional_str_def as_optional_status_def as_optional_list_str_def
        strip_def is_space_def)
  have h: "\<not> is_list (JInt 42) \<and> \<not> is_str (JInt 42)"
    by (simp add: is_list_def is_str_def)
  show ?thesis
    using first_or_none_rule [of "JStr ''A''" "[JStr ''B'']" "''A''" "JInt 42" str_of_text
        "[(''ad_creative_link_titles'', JList [JStr ''Big Sale'', JStr ''Other'']),
          (''ad_creative_bodies'', JStr ''Buy now'')]"
        "\<lparr>source = ''meta'', advertiser = None, title = Some ''Big Sale'', body = Some ''Buy now'',
          creative_url = None, first_seen = None, last_seen = None, status = Some ''active'',
          platforms = None, snapshot_url = None\<rparr>"] n h
    by (simp add: dict_get_def)
qed

section \<open>The examples, evaluated\<close>

lemmas eval_normalise =
  normalise_record_def NormalisedAd_init_def Let_def dict_get_def py_or_def
  fits_optional_str_def fits_optional_status_def fits_optional_list_str_def is_str_def
  is_list_def as_optional_str_def as_optional_status_def as_optional_list_str_def
  strip_def is_space_def str_of_text_def

lemma normalise_acme: "normalise_record str_of_text acme_record = Inr acme_ad"
  by (simp add: eval_normalise acme_record_def acme_ad_def)

lemma normalise_A: "normalise_record str_of_text record_A = Inr ad_A"
  by (simp add: eval_normalise record_A_def ad_A_def)
lemma normalise_B: "normalise_record str_of_text record_B = Inr ad_B"
  by (simp add: eval_normalise record_B_def ad_B_def)
lemma normalise_C: "normalise_record str_of_text record_C = Inr ad_C"
  by (simp add: eval_normalise record_C_def ad_C_def)
lemma normalise_D: "normalise_record str_of_text record_D = Inr ad_D"
  by (simp add: eval_normalise record_D_def ad_D_def)

lemma sort_CAB: "sort_ads [ad_A, ad_B, ad_C] = [ad_C, ad_A, ad_B]"
  by (simp add: sort_ads_def sort_key_of_def or_empty_def ad_A_def ad_B_def ad_C_def)

lemma sort_ABCD: "sort_ads [ad_A, ad_B, ad_C, ad_D] = [ad_C, ad_D, ad_A, ad_B]"
  by (simp add: sort_ads_def sort_key_of_def or_empty_def ad_A_def ad_B_def ad_C_def ad_D_def)

section \<open>Status and last seen\<close>

text \<open>
  Claim C4, as the code has it. For every raw record that \<^verbatim>\<open>_normalise_record\<close> turns into a
  \<^verbatim>\<open>NormalisedAd\<close>: the status is \<^verbatim>\<open>"inactive"\<close> exactly when the delivery stop time of the
  record is truthy (neither missing, \<^verbatim>\<open>None\<close>, nor empty), and \<^verbatim>\<open>"active"\<close> otherwise; when the
  stop time is truthy it is a string, and \<open>last_seen\<close> is that string with the whitespace
  around it stripped; otherwise \<open>last_seen\<close> is the creation time of the record, stripped in
  the same way, or \<^verbatim>\<open>None\<close> when the record has none.
\<close>

theorem status_last_seen:
  assumes "normalise_record str_of r = Inr ad"
  shows "(status ad = Some ''inactive'' \<longleftrightarrow> truthy (dict_get r ''ad_delivery_stop_time'' JNull)) \<and>
    (status ad = Some ''active'' \<longleftrightarrow> \<not> truthy (dict_get r ''ad_delivery_stop_time'' JNull)) \<and>
    (truthy (dict_get r ''ad_delivery_stop_time'' JNull) \<longrightarrow>
       (\<exists>s. dict_get r ''ad_delivery_stop_time'' JNull = JStr s \<and> last_seen ad = Some (strip s))) \<and>
    (\<not> truthy (dict_get r ''ad_delivery_stop_time'' JNull) \<longrightarrow>
       (dict_get r ''ad_creation_time'' JNull = JNull \<and> last_seen ad = None \<or>
        (\<exists>s. dict_get r ''ad_creation_time'' JNull = JStr s \<and> last_seen ad = Some (strip s))))"
proof -
  define stop where "stop = dict_get r ''ad_delivery_stop_time'' JNull"
  define creation where "creation = dict_get r ''ad_creation_time'' JNull"
  from assms have st: "status ad = Some (if truthy stop then ''inactive'' else ''active'')"
    and ls: "last_seen ad = as_optional_str (if truthy stop then stop else creation)"
    and fit: "fits_optional_str (if truthy stop then stop else creation)"
    by (auto simp: normalise_record_def NormalisedAd_init_def Let_def py_or_def
        as_optional_status_def stop_def creation_def split: if_splits)
  have a: "status ad = Some ''inactive'' \<longleftrightarrow> truthy stop"
    and b: "status ad = Some ''active'' \<longleftrightarrow> \<not> truthy stop"
    using st by auto
  have c: "truthy stop \<longrightarrow> (\<exists>s. stop = JStr s \<and> last_seen ad = Some (strip s))"
  proof
    assume t: "truthy stop"
    with ls fit have "last_seen ad = as_optional_str stop" "fits_optional_str stop"
      by simp_all
    with t show "\<exists>s. stop = JStr s \<and> last_seen ad = Some (strip s)"
      by (cases stop) (simp_all add: fits_optional_str_def is_str_def as_optional_str_def)
  qed
  have d: "\<not> truthy stop \<longrightarrow>
       (creation = JNull \<and> last_seen ad = None \<or>
        (\<exists>s. creation = JStr s \<and> last_seen ad = Some (strip s)))"
  proof
    assume t: "\<not> truthy stop"
    with ls fit have "last_seen ad = as_optional_str creation" "fits_optional_str creation"
      by simp_all
    then show "creation = JNull \<and> last_seen ad = None \<or>
        (\<exists>s. creation = JStr s \<and> last_seen ad = Some (strip s))"
      by (cases creation) (simp_all add: fits_optional_str_def is_str_def as_optional_str_def)
  qed
  from a b c d show ?thesis
    unfolding stop_def creation_def by blast
qed

text \<open>The first record of the pagination test: it has a stop time.\<close>

theorem status_last_seen_witness:
  "normalise_record str_of_text record_A = Inr ad_A \<and>
   dict_get record_A ''ad_delivery_stop_time'' JNull = JStr ''2024-05-04T00:00:00+0000'' \<and>
   truthy (JStr ''2024-05-04T00:00:00+0000'') \<and>
   status ad_A = Some ''inactive'' \<and>
   last_seen ad_A = Some (strip ''2024-05-04T00:00:00+0000'')"
proof -
  have n: "normalise_record str_of_text record_A = Inr ad_A"
    by (rule normalise_A)
  show ?thesis
    using status_last_seen [OF n] n
    by (simp add: dict_get_def record_A_def ad_A_def strip_def is_space_def)
qed

text \<open>
  Claim C4, as the specification states it, says that \<open>last_seen\<close> equals the stop time. A
  stop time that ends in a space is stored without the space, since the model is configured
  with \<^verbatim>\<open>str_strip_whitespace=True\<close>.
\<close>

theorem status_last_seen_counterexample:
  "(case normalise_record str_of_text [(''ad_delivery_stop_time'', JStr ''2024-05-04 '')] of
      Inl e \<Rightarrow> False
    | Inr ad \<Rightarrow> status ad = Some ''inactive'' \<and> last_seen ad = Some ''2024-05-04'' \<and>
        last_seen ad \<noteq> Some ''2024-05-04 '')"
  by (simp add: eval_normalise)

section \<open>What the normaliser accepts\<close>

text \<open>
  Claim C6, as the code has it. \<^verbatim>\<open>_normalise_record\<close> is a function of the record (and of
  nothing else), and on every record it either returns a \<^verbatim>\<open>NormalisedAd\<close> or raises the
  \<open>ValidationError\<close> of the constructor. It returns exactly when the page name, the
  first-or-none of the titles and of the bodies, the snapshot URL, the delivery start time and
  the stop time (or, when that is falsy, the creation time) are each \<^verbatim>\<open>None\<close> or a string and
  \<^verbatim>\<open>publisher_platforms\<close>, when it is a list, is a list of strings. A key that the record
  lacks leaves its field \<^verbatim>\<open>None\<close>.
\<close>

theorem normalise_record_returns_iff:
  "(normalise_record str_of r = Inl ValidationError \<or> (\<exists>ad. normalise_record str_of r = Inr ad)) \<and>
   ((\<exists>ad. normalise_record str_of r = Inr ad) \<longleftrightarrow>
      fits_optional_str (dict_get r ''page_name'' JNull) \<and>
      fits_optional_str (first_or_none (dict_get r ''ad_creative_link_titles'' JNull)) \<and>
      fits_optional_str (first_or_none (dict_get r ''ad_creative_bodies'' JNull)) \<and>
      fits_optional_str (dict_get r ''ad_snapshot_url'' JNull) \<and>
      fits_optional_str (dict_get r ''ad_delivery_start_time'' JNull) \<and>
      fits_optional_str (if truthy (dict_get r ''ad_delivery_stop_time'' JNull)
                         then dict_get r ''ad_delivery_stop_time'' JNull
                         else dict_get r ''ad_creation_time'' JNull) \<and>
      (\<forall>vs. dict_get r ''publisher_platforms'' JNull = JList vs \<longrightarrow> list_all is_str vs)) \<and>
   (\<forall>ad. normalise_record str_of r = Inr ad \<longrightarrow>
      (map_of r ''page_name'' = None \<longrightarrow> advertiser ad = None) \<and>
      (map_of r ''ad_creative_link_titles'' = None \<longrightarrow> title ad = None) \<and>
      (map_of r ''ad_creative_bodies'' = None \<longrightarrow> body ad = None) \<and>
      (map_of r ''ad_snapshot_url'' = None \<longrightarrow> creative_url ad = None \<and> snapshot_url ad = None) \<and>
      (map_of r ''ad_delivery_start_time'' = None \<longrightarrow> first_seen ad = None) \<and>
      (map_of r ''ad_delivery_stop_time'' = None \<and> map_of r ''ad_creation_time'' = None \<longrightarrow>
         last_seen ad = None) \<and>
      (map_of r ''publisher_platforms'' = None \<longrightarrow> platforms ad = None))"
proof -
  define p where "p = dict_get r ''publisher_platforms'' JNull"
  have plat: "fits_optional_list_str (if p \<noteq> JNull \<and> \<not> is_list p then JList [JStr (str_of p)] else p)
     \<longleftrightarrow> (\<forall>vs. p = JList vs \<longrightarrow> list_all is_str vs)"
    by (cases p) (auto simp: fits_optional_list_str_def is_list_def is_str_def)
  have stat: "fits_optional_status (if b then JStr ''inactive'' else JStr ''active'')" for b
    by (simp add: fits_optional_status_def)
  have 1: "normalise_record str_of r = Inl ValidationError \<or> (\<exists>ad. normalise_record str_of r = Inr ad)"
    by (simp add: normalise_record_def NormalisedAd_init_def Let_def)
  have 2: "(\<exists>ad. normalise_record str_of r = Inr ad) \<longleftrightarrow>
      fits_optional_str (dict_get r ''page_name'' JNull) \<and>
      fits_optional_str (first_or_none (dict_get r ''ad_creative_link_titles'' JNull)) \<and>
      fits_optional_str (first_or_none (dict_get r ''ad_creative_bodies'' JNull)) \<and>
      fits_optional_str (dict_get r ''ad_snapshot_url'' JNull) \<and>
      fits_optional_str (dict_get r ''ad_delivery_start_time'' JNull) \<and>
      fits_optional_str (if truthy (dict_get r ''ad_delivery_stop_time'' JNull)
                         then dict_get r ''ad_delivery_stop_time'' JNull
                         else dict_get r ''ad_creation_time'' JNull) \<and>
      (\<forall>vs. dict_get r ''publisher_platforms'' JNull = JList vs \<longrightarrow> list_all is_str vs)"
    using plat stat unfolding p_def
    by (simp add: normalise_record_def NormalisedAd_init_def Let_def py_or_def)
  have 3: "\<forall>ad. normalise_record str_of r = Inr ad \<longrightarrow>
      (map_of r ''page_name'' = None \<longrightarrow> advertiser ad = None) \<and>
      (map_of r ''ad_creative_link_titles'' = None \<longrightarrow> title ad = None) \<and>
      (map_of r ''ad_creative_bodies'' = None \<longrightarrow> body ad = None) \<and>
      (map_of r ''ad_snapshot_url'' = None \<longrightarrow> creative_url ad = None \<and> snapshot_url ad = None) \<and>
      (map_of r ''ad_delivery_start_time'' = None \<longrightarrow> first_seen ad = None) \<and>
      (map_of r ''ad_delivery_stop_time'' = None \<and> map_of r ''ad_creation_time'' = None \<longrightarrow>
         last_seen ad = None) \<and>
      (map_of r ''publisher_platforms'' = None \<longrightarrow> platforms ad = None)"
    by (auto simp: normalise_record_def NormalisedAd_init_def Let_def py_or_def dict_get_def
        as_optional_str_def as_optional_list_str_def split: if_splits)
  from 1 2 3 show ?thesis by blast
qed

text \<open>The record of the success test, and the record with no key at all.\<close>

theorem normalise_record_returns_iff_witness:
  "normalise_record str_of_text acme_record = Inr acme_ad \<and>
   fits_optional_str (dict_get acme_record ''page_name'' JNull) \<and>
   fits_optional_str (first_or_none (dict_get acme_record ''ad_creative_link_titles'' JNull)) \<and>
   fits_optional_str (first_or_none (dict_get acme_record ''ad_creative_bodies'' JNull)) \<and>
   fits_optional_str (dict_get acme_record ''ad_snapshot_url'' JNull) \<and>
   fits_optional_str (dict_get acme_record ''ad_delivery_start_time'' JNull) \<and>
   \<not> truthy (dict_get acme_record ''ad_delivery_stop_time'' JNull) \<and>
   fits_optional_str (dict_get acme_record ''ad_creation_time'' JNull) \<and>
   dict_get acme_record ''publisher_platforms'' JNull = JList [JStr ''facebook''] \<and>
   list_all is_str [JStr ''facebook''] \<and>
   normalise_record str_of_text [] =
     Inr \<lparr>source = ''meta'', advertiser = None, title = None, body = None, creative_url = None,
          first_seen = None, last_seen = None, status = Some ''active'', platforms = None,
          snapshot_url = None\<rparr>"
  using normalise_record_returns_iff [of str_of_text acme_record]
    normalise_record_returns_iff [of str_of_text "[]"] normalise_acme
  by (simp add: eval_normalise acme_record_def)

text \<open>
  Claim C6, as the specification states it, says that the normaliser never raises. A page
  name that is a number does not fit \<^verbatim>\<open>Optional[str]\<close>, and the constructor raises.
\<close>

theorem normalise_record_raises_counterexample:
  "normalise_record str_of_text [(''page_name'', JInt 42)] = Inl ValidationError"
  by (simp add: eval_normalise)

section \<open>The order of the result\<close>

text \<open>
  Claim C3. \<^verbatim>\<open>_sort_ads\<close> is a function of its input that returns the same ads in descending
  order of the key (\<open>last_seen\<close>, then \<open>first_seen\<close>, \<^verbatim>\<open>None\<close> read as the empty string):
  each ad's key is at least the key of every ad after it, the result is a permutation of the
  input, and the ads of any one key stand in the order they had in the input. Keys are
  compared as pairs of strings, lexicographically: the first components decide unless they
  are equal.
\<close>

theorem sort_ads_descending_stable:
  "sorted_wrt (\<lambda>a b. sort_key_of a \<ge> sort_key_of b) (sort_ads ads) \<and>
   mset (sort_ads ads) = mset ads \<and>
   (\<forall>k. filter (\<lambda>a. sort_key_of a = k) (sort_ads ads) = filter (\<lambda>a. sort_key_of a = k) ads) \<and>
   (sort_key_of a \<le> sort_key_of b \<longleftrightarrow>
      or_empty (last_seen a) < or_empty (last_seen b) \<or>
      or_empty (last_seen a) = or_empty (last_seen b) \<and>
      or_empty (first_seen a) \<le> or_empty (first_seen b)) \<and>
   or_empty None = [] \<and> or_empty (Some s) = s"
proof -
  have "sorted (map sort_key_of (sort_key sort_key_of (rev ads)))"
    by simp
  then have "sorted_wrt (\<lambda>a b. sort_key_of a \<le> sort_key_of b) (sort_key sort_key_of (rev ads))"
    by (simp only: sorted_map)
  then have 1: "sorted_wrt (\<lambda>a b. sort_key_of a \<ge> sort_key_of b) (sort_ads ads)"
    by (simp add: sort_ads_def sorted_wrt_rev)
  have 2: "mset (sort_ads ads) = mset ads"
    by (simp add: sort_ads_def)
  have 3: "filter (\<lambda>a. sort_key_of a = k) (sort_ads ads) = filter (\<lambda>a. sort_key_of a = k) ads" for k
    by (simp add: sort_ads_def rev_filter [symmetric] sort_key_stable)
  have 4: "sort_key_of a \<le> sort_key_of b \<longleftrightarrow>
      or_empty (last_seen a) < or_empty (last_seen b) \<or>
      or_empty (last_seen a) = or_empty (last_seen b) \<and>
      or_empty (first_seen a) \<le> or_empty (first_seen b)"
    by (auto simp: sort_key_of_def less_eq_prod_def)
  from 1 2 3 4 show ?thesis
    by (simp add: or_empty_def)
qed

text \<open>
  The example of the specification, and ties on \<open>last_seen\<close> broken by \<open>first_seen\<close>.
\<close>

lemma sort_ads_example:
  "map last_seen (sort_ads
     [acme_ad\<lparr>last_seen := Some ''2024-05-01''\<rparr>,
      acme_ad\<lparr>last_seen := Some ''2024-05-04''\<rparr>,
      acme_ad\<lparr>last_seen := Some ''2024-05-02''\<rparr>]) =
   [Some ''2024-05-04'', Some ''2024-05-02'', Some ''2024-05-01'']"
  by (simp add: sort_ads_def sort_key_of_def or_empty_def acme_ad_def)

lemma sort_ads_tie_example:
  "map first_seen (sort_ads
     [acme_ad\<lparr>first_seen := Some ''2024-05-01''\<rparr>,
      acme_ad\<lparr>first_seen := None\<rparr>,
      acme_ad\<lparr>first_seen := Some ''2024-05-03''\<rparr>]) =
   [Some ''2024-05-03'', Some ''2024-05-01'', None]"
  by (simp add: sort_ads_def sort_key_of_def or_empty_def acme_ad_def)

section \<open>The loop as a whole\<close>

lemma fetch_loop_Inr:
  "fetch_loop lmt script raw nxt sent n = Some run \<Longrightarrow> outcome run = Inr out \<Longrightarrow>
   n < page_count run \<and> page_count run - n \<le> length script \<and>
   length (requests run) = length sent + (page_count run - n) \<and>
   out = raw @ concat (map records_of (take (page_count run - n) script))"
proof (induction script arbitrary: raw nxt sent n)
  case Nil
  then show ?case by simp
next
  case (Cons r script)
  show ?case
  proof (cases r)
    case (Response st b)
    show ?thesis
    proof (cases "page_turn lmt raw st b")
      case (Continue raw1 nxt1)
      from page_turn_Continue[OF Continue] have raw1: "raw1 = raw @ records_of r"
        by (simp add: Response)
      from Cons.prems(1) have
        "fetch_loop lmt script raw1 nxt1 (sent @ [if truthy nxt then Follow nxt else Search]) (Suc n) = Some run"
        by (simp add: Response Continue Let_def)
      from Cons.IH[OF this Cons.prems(2)] have
        a: "Suc n < page_count run" and b: "page_count run - Suc n \<le> length script"
        and c: "length (requests run) = Suc (length sent) + (page_count run - Suc n)"
        and d: "out = raw1 @ concat (map records_of (take (page_count run - Suc n) script))"
        by simp_all
      from a obtain m where m: "page_count run - n = Suc m" "page_count run - Suc n = m"
        by (cases "page_count run - n") auto
      from a b c d show ?thesis
        by (simp add: m raw1)
    next
      case (Stop res)
      from Cons.prems have run: "page_count run = Suc n" "res = Inr out"
        "requests run = sent @ [if truthy nxt then Follow nxt else Search]"
        by (auto simp: Response Stop Let_def)
      from Stop run have "out = raw @ records_of r"
        by (simp add: page_turn_Stop_Inr Response)
      with run show ?thesis by simp
    qed
  next
    case (Timeout k msg)
    with Cons.prems show ?thesis by (auto simp: Let_def)
  next
    case (Failure msg)
    with Cons.prems show ?thesis by (auto simp: Let_def)
  qed
qed

lemma slice_to_take: "0 \<le> n \<Longrightarrow> slice_to xs n = take (min (nat n) (length xs)) xs"
  by (simp add: slice_to_def min_def)


lemma finish_fetch_take:
  "0 \<le> limit q \<Longrightarrow>
   finish_fetch str_of q raw =
     (case normalise_all str_of (take (min (nat (limit q)) (length raw)) raw) of
        Inl e \<Rightarrow> Inl e | Inr normalised \<Rightarrow> Inr (sort_ads normalised))"
  by (cases "raw = []") (simp_all add: finish_fetch_def slice_to_take)

lemma fetch_ads_after_passes:
  assumes "passes (limit q) [] pre"
  shows "\<exists>nxt sent. length sent = length pre \<and>
    (\<forall>rest. fetch_loop (limit q) (pre @ rest) [] JNull [] 0 =
       fetch_loop (limit q) rest (concat (map records_of pre)) nxt sent (length pre))"
proof -
  from fetch_loop_passes[OF assms, of "[]" JNull] obtain nxt sent where
    l: "length sent = length ([]::request list) + length pre" and
    f: "\<forall>rest n. fetch_loop (limit q) (pre @ rest) [] JNull [] n =
        fetch_loop (limit q) rest ([] @ concat (map records_of pre)) nxt sent (n + length pre)"
    by blast
  from f have "\<forall>rest. fetch_loop (limit q) (pre @ rest) [] JNull [] 0 =
       fetch_loop (limit q) rest (concat (map records_of pre)) nxt sent (length pre)"
    by (metis add_0 append_Nil)
  with l show ?thesis by auto
qed

section \<open>The pagination test, evaluated\<close>

lemmas eval_pages =
  first_page_def second_page_def second_page_with_cursor_def empty_page_def tech_query_def
  next_page_url_def page_turn_def dict_get_def

lemma passes_first_page: "passes (limit tech_query) [] [first_page]"
  by (simp add: eval_pages)

lemma records_of_first_page: "records_of first_page = [JObj record_A, JObj record_B]"
  by (simp add: eval_pages)

lemma records_of_second_page: "records_of second_page = [JObj record_C, JObj record_D]"
  by (simp add: eval_pages)

lemma finish_ABCD:
  "finish_fetch str_of_text tech_query [JObj record_A, JObj record_B, JObj record_C, JObj record_D] =
     Inr [ad_C, ad_A, ad_B]"
  by (simp add: finish_fetch_def slice_to_def tech_query_def normalise_A normalise_B normalise_C
      sort_CAB)

lemma fetch_two_pages:
  "fetch_ads str_of_text tech_query ''test-token'' [first_page, second_page] =
     Some \<lparr>requests = [Search, Follow (JStr next_page_url)], page_count = 2,
           outcome = Inr [ad_C, ad_A, ad_B]\<rparr>"
  using finish_ABCD by (simp add: fetch_ads_def eval_pages)

section \<open>When the loop stops\<close>



section \<open>Timeouts\<close>

text \<open>
  Claim C9. Let the loop have gone through the replies \<open>pre\<close> (none, or any number of pages
  that were accumulated), and let the next request raise a timeout of any of the five kinds,
  with the text \<open>msg\<close>. Then \<^verbatim>\<open>fetch_ads\<close> raises \<open>MetaTimeoutError\<close> with that text: it
  returns no ads, whatever it had accumulated, and it sends no request after the one that
  timed out, so that nothing is tried again.
\<close>

theorem timeout_aborts:
  assumes "passes (limit q) [] pre"
  shows "\<exists>run. fetch_ads str_of q token (pre @ Timeout k msg # rest) = Some run \<and>
    outcome run = Inl (MetaTimeoutError msg) \<and>
    length (requests run) = Suc (length pre) \<and> page_count run = length pre"
proof -
  from fetch_ads_after_passes[OF assms] obtain nxt sent where
    l: "length sent = length pre" and
    f: "fetch_loop (limit q) (pre @ Timeout k msg # rest) [] JNull [] 0 =
       fetch_loop (limit q) (Timeout k msg # rest) (concat (map records_of pre)) nxt sent (length pre)"
    by blast
  show ?thesis
    by (simp add: fetch_ads_def f l Let_def)
qed

text \<open>The timeout of the timeout test, after the first page and on the first request.\<close>

theorem timeout_aborts_witness:
  "passes (limit tech_query) [] [first_page] \<and>
   fetch_ads str_of_text tech_query ''test-token''
     ([first_page] @ Timeout ReadTimeout ''Timeout'' # [second_page]) =
     Some \<lparr>requests = [Search, Follow (JStr next_page_url)], page_count = 1,
           outcome = Inl (MetaTimeoutError ''Timeout'')\<rparr> \<and>
   fetch_ads str_of_text tech_query ''test-token'' ([] @ Timeout ReadTimeout ''Timeout'' # []) =
     Some \<lparr>requests = [Search], page_count = 0, outcome = Inl (MetaTimeoutError ''Timeout'')\<rparr>"
proof -
  have a1: "passes (limit tech_query) [] [first_page]"
    by (rule passes_first_page)
  have e1: "fetch_ads str_of_text tech_query ''test-token''
     ([first_page] @ Timeout ReadTimeout ''Timeout'' # [second_page]) =
     Some \<lparr>requests = [Search, Follow (JStr next_page_url)], page_count = 1,
           outcome = Inl (MetaTimeoutError ''Timeout'')\<rparr>"
    by (simp add: fetch_ads_def eval_pages)
  have e2: "fetch_ads str_of_text tech_query ''test-token'' ([] @ Timeout ReadTimeout ''Timeout'' # []) =
     Some \<lparr>requests = [Search], page_count = 0, outcome = Inl (MetaTimeoutError ''Timeout'')\<rparr>"
    by (simp add: fetch_ads_def)
  show ?thesis
    using timeout_aborts [OF a1, of str_of_text "''test-token''" ReadTimeout "''Timeout''" "[second_page]"]
      a1 e1 e2
    by simp
qed

section \<open>Error responses\<close>

text \<open>
  A response whose status is not 200 ends the run with the exception of the error branch and
  with no ads, whatever the loop had accumulated.
\<close>

lemma error_status_aborts:
  assumes "passes (limit q) [] pre" and "status_code \<noteq> 200"
  shows "\<exists>run. fetch_ads str_of q token (pre @ Response status_code b # rest) = Some run \<and>
    outcome run = Inl (upstream_error status_code b) \<and>
    length (requests run) = Suc (length pre) \<and> page_count run = Suc (length pre)"
proof -
  from fetch_ads_after_passes[OF assms(1)] obtain nxt sent where
    l: "length sent = length pre" and
    f: "fetch_loop (limit q) (pre @ Response status_code b # rest) [] JNull [] 0 =
       fetch_loop (limit q) (Response status_code b # rest) (concat (map records_of pre)) nxt sent (length pre)"
    by blast
  show ?thesis
    using assms(2) by (simp add: fetch_ads_def f l Let_def page_turn_def)
qed

lemma upstream_error_NotJson:
  "upstream_error status_code (NotJson text) = MetaAPIError status_code JNull (JStr text)"
  by (simp add: upstream_error_def error_payload_def dict_get_def)

lemma upstream_error_JObj:
  "dict_get p ''error'' (JObj []) = JObj e \<Longrightarrow>
   upstream_error status_code (Json (JObj p)) =
     MetaAPIError status_code (dict_get e ''code'' JNull) (dict_get e ''message'' (JStr ''Meta API error''))"
  by (simp add: upstream_error_def error_payload_def)

text \<open>
  What the error branch raises on the bodies it provides for. When the body does not decode
  as JSON, the exception is \<open>MetaAPIError\<close> with the status code, no provider code and the
  raw text as the message. When the body is a JSON object whose \<^verbatim>\<open>error\<close> member is an
  object (or is missing, which counts as the empty object), the exception is \<open>MetaAPIError\<close>
  with the status code, the \<^verbatim>\<open>code\<close> member (\<^verbatim>\<open>None\<close> when there is none) and the \<^verbatim>\<open>message\<close>
  member (\<^verbatim>\<open>"Meta API error"\<close> when there is none). In both cases no further request is sent.
\<close>

lemma error_response_raises:
  assumes "passes (limit q) [] pre" and "status_code \<noteq> 200"
  shows "\<exists>run. fetch_ads str_of q token (pre @ Response status_code b # rest) = Some run \<and>
    length (requests run) = Suc (length pre) \<and>
    (\<forall>text. b = NotJson text \<longrightarrow>
       outcome run = Inl (MetaAPIError status_code JNull (JStr text))) \<and>
    (\<forall>p e. b = Json (JObj p) \<and> dict_get p ''error'' (JObj []) = JObj e \<longrightarrow>
       outcome run =
         Inl (MetaAPIError status_code (dict_get e ''code'' JNull)
                (dict_get e ''message'' (JStr ''Meta API error''))))"
proof -
  from error_status_aborts[OF assms, of str_of token b rest] obtain run where
    "fetch_ads str_of q token (pre @ Response status_code b # rest) = Some run"
    "outcome run = Inl (upstream_error status_code b)"
    "length (requests run) = Suc (length pre)"
    by blast
  then show ?thesis
    by (auto simp: upstream_error_NotJson upstream_error_JObj)
qed

text \<open>
  The response of \<^verbatim>\<open>test_get_ads_upstream_error\<close>, a body that is not JSON, and an error
  object with no members.
\<close>

lemma error_response_examples:
  "fetch_ads str_of_text tech_query ''test-token''
     [Response 400 (Json (JObj
        [(''error'', JObj [(''code'', JInt 190), (''message'', JStr ''Token expired'')])]))] =
     Some \<lparr>requests = [Search], page_count = 1,
           outcome = Inl (MetaAPIError 400 (JInt 190) (JStr ''Token expired''))\<rparr> \<and>
   fetch_ads str_of_text tech_query ''test-token'' [Response 502 (NotJson ''Bad Gateway'')] =
     Some \<lparr>requests = [Search], page_count = 1,
           outcome = Inl (MetaAPIError 502 JNull (JStr ''Bad Gateway''))\<rparr> \<and>
   fetch_ads str_of_text tech_query ''test-token'' [Response 500 (Json (JObj [(''error'', JObj [])]))] =
     Some \<lparr>requests = [Search], page_count = 1,
           outcome = Inl (MetaAPIError 500 JNull (JStr ''Meta API error''))\<rparr>"
  by (simp add: fetch_ads_def page_turn_def upstream_error_def error_payload_def dict_get_def)

text \<open>
  Claim C8 says that every response with a status other than 200 makes \<^verbatim>\<open>fetch_ads\<close> fail with
  the upstream error, which carries the status code, the provider code or \<^verbatim>\<open>None\<close>, and the
  message or its default. The error branch is written to do so: it replaces a body that is not
  JSON, a missing \<^verbatim>\<open>error\<close> member and a missing message by defaults. It does not look at the
  shape of what it decoded. On the response with status 503 and the body
  \<^verbatim>\<open>{"error": "Service Unavailable"}\<close> the call \<^verbatim>\<open>error.get("code")\<close> is made on a string
  and raises \<open>AttributeError\<close>: the exception that leaves \<^verbatim>\<open>fetch_ads\<close> is not a
  \<open>MetaAPIError\<close> and carries no status code.
\<close>

theorem error_member_string_raises:
  "fetch_ads str_of_text tech_query ''test-token''
     [Response 503 (Json (JObj [(''error'', JStr ''Service Unavailable'')]))] =
     Some \<lparr>requests = [Search], page_count = 1, outcome = Inl AttributeError\<rparr>"
  by (simp add: fetch_ads_def page_turn_def upstream_error_def error_payload_def dict_get_def)

text \<open>
  Whatever the error branch raises, it raises it in place of the pages accumulated: after
  any number of pages, a response with a status other than 200 ends the run with the exception
  that this response raises when it comes first, with no ads and with no further request.
\<close>

lemma error_status_discards:
  assumes "passes (limit q) [] pre" and "status_code \<noteq> 200"
  shows "\<exists>run. fetch_ads str_of q token (pre @ Response status_code b # rest) = Some run \<and>
    outcome run = Inl (upstream_error status_code b) \<and>
    fetch_ads str_of q token [Response status_code b] =
      Some \<lparr>requests = [Search], page_count = 1, outcome = outcome run\<rparr> \<and>
    length (requests run) = Suc (length pre) \<and> page_count run = Suc (length pre)"
proof -
  from error_status_aborts[OF assms, of str_of token b rest] obtain run where
    r: "fetch_ads str_of q token (pre @ Response status_code b # rest) = Some run"
    "outcome run = Inl (upstream_error status_code b)"
    "length (requests run) = Suc (length pre)" "page_count run = Suc (length pre)"
    by blast
  have "fetch_ads str_of q token [Response status_code b] =
      Some \<lparr>requests = [Search], page_count = 1, outcome = Inl (upstream_error status_code b)\<rparr>"
    using assms(2) by (simp add: fetch_ads_def page_turn_def)
  with r show ?thesis by simp
qed

text \<open>The error of the upstream-error test, after the first page of the pagination test.\<close>

lemma error_after_page_example:
  "fetch_ads str_of_text tech_query ''test-token''
     [first_page,
      Response 400 (Json (JObj
        [(''error'', JObj [(''code'', JInt 190), (''message'', JStr ''Token expired'')])])),
      second_page] =
     Some \<lparr>requests = [Search, Follow (JStr next_page_url)], page_count = 2,
           outcome = Inl (MetaAPIError 400 (JInt 190) (JStr ''Token expired''))\<rparr>"
  by (simp add: fetch_ads_def page_turn_def upstream_error_def error_payload_def dict_get_def
      first_page_def tech_query_def next_page_url_def)

text \<open>
  Claim C10 says that a response with a status other than 200 that comes after accumulated
  pages makes \<^verbatim>\<open>fetch_ads\<close> raise the upstream error and return no partial data. No data is
  returned, as the lemma above has it for every such response. The exception is the upstream
  error only where the error branch builds one: after the first page of the pagination test,
  the response with status 503 and the body \<^verbatim>\<open>{"error": "Service Unavailable"}\<close> makes the
  branch raise \<open>AttributeError\<close>, by the call of \<^verbatim>\<open>.get\<close> on a string that claim C8 meets on
  a first response.
\<close>

theorem error_member_string_after_page_raises:
  "fetch_ads str_of_text tech_query ''test-token''
     [first_page, Response 503 (Json (JObj [(''error'', JStr ''Service Unavailable'')]))] =
     Some \<lparr>requests = [Search, Follow (JStr next_page_url)], page_count = 2,
           outcome = Inl AttributeError\<rparr>"
  by (simp add: fetch_ads_def page_turn_def upstream_error_def error_payload_def dict_get_def
      first_page_def tech_query_def next_page_url_def)

section \<open>Truncation comes first\<close>

text \<open>
  Claim C2. When \<^verbatim>\<open>fetch_ads\<close> returns a list of ads for a valid query, the list is obtained
  from the records received, that is the records of the pages fetched in the order of their
  arrival: the first \<open>min (limit, number received)\<close> of them are normalised, one by one,
  and the normalised ads are sorted. Nothing of a record after these enters the result.
\<close>

theorem fetch_ads_truncates_then_sorts:
  assumes "valid_query q" and "fetch_ads str_of q token script = Some run"
    and "outcome run = Inr ads"
  shows "page_count run \<le> length script \<and>
    (\<exists>normalised.
       normalise_all str_of
         (take (min (nat (limit q)) (length (concat (map records_of (take (page_count run) script)))))
            (concat (map records_of (take (page_count run) script)))) = Inr normalised \<and>
       ads = sort_ads normalised)"
proof -
  from assms(2) obtain run0 where
    f: "fetch_loop (limit q) script [] JNull [] 0 = Some run0" and
    pc: "page_count run = page_count run0" and
    oc: "outcome run = (case outcome run0 of Inl e \<Rightarrow> Inl e
                         | Inr raw \<Rightarrow> finish_fetch str_of q raw)"
    by (auto simp: fetch_ads_def split: option.splits)
  from oc assms(3) obtain raw where raw: "outcome run0 = Inr raw"
    and fin: "finish_fetch str_of q raw = Inr ads"
    by (cases "outcome run0") auto
  from fetch_loop_Inr[OF f raw] have
    le: "page_count run0 \<le> length script" and
    r: "raw = concat (map records_of (take (page_count run0) script))"
    by simp_all
  from assms(1) have "0 \<le> limit q"
    by (simp add: valid_query_def)
  from fin finish_fetch_take[OF this, of str_of raw] obtain normalised where
    "normalise_all str_of (take (min (nat (limit q)) (length raw)) raw) = Inr normalised"
    "ads = sort_ads normalised"
    by (cases "normalise_all str_of (take (min (nat (limit q)) (length raw)) raw)") auto
  with le r pc show ?thesis by auto
qed

text \<open>
  The pagination test: two pages of two records, a limit of 3. The fourth record, had it been
  kept, would stand second.
\<close>

theorem fetch_ads_truncates_then_sorts_witness:
  "valid_query tech_query \<and>
   fetch_ads str_of_text tech_query ''test-token'' [first_page, second_page] =
     Some \<lparr>requests = [Search, Follow (JStr next_page_url)], page_count = 2,
           outcome = Inr [ad_C, ad_A, ad_B]\<rparr> \<and>
   concat (map records_of (take 2 [first_page, second_page])) =
     [JObj record_A, JObj record_B, JObj record_C, JObj record_D] \<and>
   normalise_all str_of_text
     (take (min (nat (limit tech_query)) 4) [JObj record_A, JObj record_B, JObj record_C, JObj record_D]) =
     Inr [ad_A, ad_B, ad_C] \<and>
   [ad_C, ad_A, ad_B] = sort_ads [ad_A, ad_B, ad_C] \<and>
   sort_ads [ad_A, ad_B, ad_C, ad_D] = [ad_C, ad_D, ad_A, ad_B]"
proof -
  have v: "valid_query tech_query"
    by (simp add: valid_query_def tech_query_def)
  have o: "outcome \<lparr>requests = [Search, Follow (JStr next_page_url)], page_count = 2,
           outcome = Inr [ad_C, ad_A, ad_B]\<rparr> = Inr [ad_C, ad_A, ad_B]"
    by simp
  show ?thesis
    using fetch_ads_truncates_then_sorts [OF v fetch_two_pages o] v fetch_two_pages
    by (simp add: records_of_first_page records_of_second_page tech_query_def normalise_A
        normalise_B normalise_C sort_CAB sort_ABCD)
qed

section \<open>The rate limiter's window\<close>

lemma popleft_old_dropWhile: "popleft_old now ts = dropWhile (\<lambda>t. now - t \<ge> RATE_LIMIT_WINDOW) ts"
  by (induction ts) simp_all













end
